theory Spec2Isabelle
  imports Main "HOL-Library.Sublist"
begin

section \<open>The comment stripper of demo/uncomment.c\<close>

text \<open>
  \<^verbatim>\<open>uncomment(FILE *in, FILE *out)\<close> is one finite state machine written with the
  macros of \<^verbatim>\<open>fsm.h\<close>: \<^verbatim>\<open>fsmstate(s)\<close> opens the block of state \<^verbatim>\<open>s\<close>,
  \<^verbatim>\<open>fsmgoto(s)\<close> is \<^verbatim>\<open>goto fsm_state_s\<close> and \<^verbatim>\<open>fsmexit\<close> is \<^verbatim>\<open>goto fsm_exit\<close>.
  The embedding has one equation per state block, a driver that follows the jumps, and
  the two streams as lists of bytes.
\<close>

subsection \<open>Characters and streams\<close>

abbreviation dquote :: char where "dquote \<equiv> CHR 0x22"
abbreviation squote :: char where "squote \<equiv> CHR 0x27"
abbreviation bslash :: char where "bslash \<equiv> CHR 0x5C"
abbreviation newline :: char where "newline \<equiv> CHR 0x0A"

text \<open>\<^verbatim>\<open>EOF\<close> of stdio.h: a negative int, distinct from every byte value.\<close>

definition EOF :: int where
  "EOF = - 1"

text \<open>The int value of a byte: what \<^verbatim>\<open>fgetc\<close> returns for it, and the value of a C
  character constant such as \<^verbatim>\<open>'/'\<close> (all constants of the program are ASCII).\<close>

definition cint :: "char \<Rightarrow> int" where
  "cint ch = of_char ch"

text \<open>The input stream: the bytes \<^verbatim>\<open>fgetc\<close> has delivered so far, in order, and the
  bytes still unread. The output stream: the bytes written so far.\<close>

type_synonym in_file = "char list \<times> char list"
type_synonym out_file = "char list"

fun fgetc :: "in_file \<Rightarrow> int \<times> in_file" where
  "fgetc (rd, []) = (EOF, (rd, []))"
| "fgetc (rd, x # un) = (cint x, (rd @ [x], un))"

text \<open>\<^verbatim>\<open>fputc(v, out)\<close> writes \<^verbatim>\<open>(unsigned char) v\<close>.\<close>

definition fputc :: "int \<Rightarrow> out_file \<Rightarrow> out_file" where
  "fputc v f = f @ [char_of v]"

subsection \<open>The states and their blocks\<close>

datatype state =
  START | code | code_char | slash | string | literal | escaped
  | line_comment | block_comment | star

text \<open>What the blocks share: the variable \<^verbatim>\<open>int c\<close> and the two streams.\<close>

type_synonym ctx = "int \<times> in_file \<times> out_file"

text \<open>A block ends in \<^verbatim>\<open>fsmgoto(s)\<close> or in \<^verbatim>\<open>fsmexit\<close>.\<close>

datatype jump = Goto state ctx | Exit ctx

fun step :: "state \<Rightarrow> ctx \<Rightarrow> jump" where
  "step START (c, i, out) = Goto code (c, i, out)"
| "step code (c, i, out) =
    (let (c, i) = fgetc i in
     if c = EOF then Exit (c, i, out)
     else if c = cint CHR ''/'' then Goto slash (c, i, out)
     else Goto code_char (c, i, out))"
| "step code_char (c, i, out) =
    (let out = fputc c out in
     if c = cint dquote then Goto string (c, i, out)
     else if c = cint squote then Goto literal (c, i, out)
     else Goto code (c, i, out))"
| "step slash (c, i, out) =
    (let (c, i) = fgetc i in
     if c = EOF then Exit (c, i, out)
     else if c = cint CHR ''/'' then Goto line_comment (c, i, out)
     else if c = cint CHR ''*'' then Goto block_comment (c, i, out)
     else let out = fputc (cint CHR ''/'') out in
       Goto code_char (c, i, out))"
| "step string (c, i, out) =
    (let (c, i) = fgetc i in
     if c = EOF then Exit (c, i, out)
     else if c = cint bslash then Goto escaped (c, i, out)
     else let out = fputc c out in
       if c = cint dquote then Goto code (c, i, out)
       else Goto string (c, i, out))"
| "step literal (c, i, out) =
    (let (c, i) = fgetc i in
     if c = EOF then Exit (c, i, out)
     else if c = cint bslash then Goto escaped (c, i, out)
     else let out = fputc c out in
       if c = cint squote then Goto code (c, i, out)
       else Goto literal (c, i, out))"
| "step escaped (c, i, out) =
    (let quote = c;
         out = fputc quote out;
         (c, i) = fgetc i in
     if c = EOF then Exit (c, i, out)
     else let out = fputc c out in
       if quote = cint dquote then Goto string (c, i, out)
       else Goto literal (c, i, out))"
| "step line_comment (c, i, out) =
    (let (c, i) = fgetc i in
     if c = EOF then Exit (c, i, out)
     else if c = cint newline then Goto code (c, i, out)
     else Goto line_comment (c, i, out))"
| "step block_comment (c, i, out) =
    (let (c, i) = fgetc i in
     if c = EOF then Exit (c, i, out)
     else if c = cint CHR ''*'' then Goto star (c, i, out)
     else Goto block_comment (c, i, out))"
| "step star (c, i, out) =
    (let (c, i) = fgetc i in
     if c = EOF then Exit (c, i, out)
     else if c = cint CHR ''/'' then Goto code (c, i, out)
     else Goto block_comment (c, i, out))"

subsection \<open>Following the jumps\<close>

text \<open>
  Control enters at \<^verbatim>\<open>fsm_state_START\<close> and follows one \<^verbatim>\<open>goto\<close> after the other
  until a block jumps to \<^verbatim>\<open>fsm_exit\<close>. Nothing in the macros bounds the number of
  jumps, so the driver is a partial function: \<open>None\<close> is a run that never reaches
  \<^verbatim>\<open>fsm_exit\<close>. A run that does reach it yields the state whose block left and the
  final context.
\<close>

partial_function (option) exec :: "state \<Rightarrow> ctx \<Rightarrow> (state \<times> ctx) option" where
  "exec s x = (case step s x of Exit x' \<Rightarrow> Some (s, x') | Goto s' x' \<Rightarrow> exec s' x')"

text \<open>
  \<^verbatim>\<open>uncomment(in, out)\<close> on an input holding the bytes \<open>inp\<close> and an empty output:
  the bytes written. \<open>c0\<close> is the indeterminate initial value of the uninitialised
  \<^verbatim>\<open>int c\<close>.
\<close>

definition uncomment :: "int \<Rightarrow> char list \<Rightarrow> char list option" where
  "uncomment c0 inp =
     (case exec START (c0, ([], inp), []) of
        None \<Rightarrow> None
      | Some (s, c, i, out) \<Rightarrow> Some out)"

subsection \<open>Two measures of a configuration\<close>

text \<open>
  Every jump either takes a byte from the input or leaves one of the two blocks that do
  not read (\<^verbatim>\<open>START\<close> and \<^verbatim>\<open>code_char\<close>) for a block that does; \<open>msr\<close> counts what
  is left of both.
\<close>

fun msr :: "state \<Rightarrow> ctx \<Rightarrow> nat" where
  "msr s (c, (rd, un), out) =
     2 * length un + (if s = START \<or> s = code_char then 1 else 0)"

text \<open>
  The bytes a block owes to the output when it is entered: \<^verbatim>\<open>code_char\<close> and
  \<^verbatim>\<open>escaped\<close> begin by writing the byte still held in \<^verbatim>\<open>c\<close>, and \<^verbatim>\<open>slash\<close> holds
  back a \<^verbatim>\<open>/\<close> that it may write later.
\<close>

fun pend :: "state \<Rightarrow> int \<Rightarrow> char list" where
  "pend code_char c = [char_of c]"
| "pend escaped c = [char_of c]"
| "pend slash c = ''/''"
| "pend s c = []"

subsection \<open>Which block read which byte\<close>



subsection \<open>The fate of a byte\<close>






section \<open>Basic facts\<close>

lemma cint_eq_iff [simp]: "cint a = cint b \<longleftrightarrow> a = b"
  by (simp add: cint_def)

lemma cint_not_EOF [simp]: "cint a \<noteq> EOF"
proof -
  have "(of_char a :: int) = int (of_char a)"
    by (simp only: of_nat_of_char)
  then have "(0::int) \<le> of_char a"
    by simp
  then show ?thesis
    by (simp add: cint_def EOF_def)
qed

lemma char_of_cint [simp]: "char_of (cint a) = a"
  by (simp add: cint_def)

lemma fputc_cint [simp]: "fputc (cint a) f = f @ [a]"
  by (simp add: fputc_def)

subsection \<open>One jump\<close>

lemma exec_Goto: "step s x = Goto s' x' \<Longrightarrow> exec s x = exec s' x'"
  by (subst exec.simps) simp

lemma exec_Exit: "step s x = Exit x' \<Longrightarrow> exec s x = Some (s, x')"
  by (subst exec.simps) simp

lemma exec_START: "exec START x = exec code x"
  by (cases x) (simp add: exec_Goto)

lemma step_msr: "step s x = Goto s' x' \<Longrightarrow> msr s' x' < msr s x"
proof -
  obtain c rd un out where x: "x = (c, (rd, un), out)"
    by (metis prod.exhaust)
  assume "step s x = Goto s' x'"
  then show ?thesis
    unfolding x by (cases s; cases un) (auto simp: Let_def split: if_splits)
qed

text \<open>A block leaves the machine only when \<^verbatim>\<open>fgetc\<close> has returned \<^verbatim>\<open>EOF\<close>.\<close>

lemma step_Exit:
  assumes "step s (c, (rd, un), out) = Exit x'"
  shows "un = [] \<and> x' = (EOF, (rd, []), out @ (if s = escaped then [char_of c] else []))"
  using assms by (cases s; cases un) (auto simp: Let_def fputc_def split: if_splits)

text \<open>A jump keeps the bytes of the input, moves at most one of them to the delivered
  side, and writes only bytes it owed or has just read, in their order.\<close>

lemma step_Goto:
  assumes "step s (c, (rd, un), out) = Goto s' (c', (rd', un'), out')"
  shows "rd' @ un' = rd @ un \<and>
         (\<exists>d. out' = out @ d \<and>
            (\<forall>e. subseq e (pend s' c' @ un') \<longrightarrow> subseq (d @ e) (pend s c @ un)))"
  using assms by (cases s; cases un) (auto simp: Let_def fputc_def split: if_splits)

text \<open>A block looks at one byte only: what follows it in the input does not change the jump.\<close>

lemma step_append:
  assumes "step s (c, (rd, un), out) = Goto s' (c', (rd', un'), out')"
  shows "step s (c, (rd, un @ t), out) = Goto s' (c', (rd', un' @ t), out')"
  using assms by (cases s; cases un) (auto simp: Let_def split: if_splits)

subsection \<open>Induction along a run\<close>

lemma exec_induct [case_names step]:
  assumes "\<And>s x. (\<And>s' x'. step s x = Goto s' x' \<Longrightarrow> P s' x') \<Longrightarrow> P s x"
  shows "P s x"
proof (induction "msr s x" arbitrary: s x rule: less_induct)
  case less
  show ?case
    by (rule assms) (rule less, rule step_msr)
qed

text \<open>
  From every state and every context the run reaches \<^verbatim>\<open>fsm_exit\<close>; by then all of the
  input has been delivered, \<^verbatim>\<open>c\<close> holds \<^verbatim>\<open>EOF\<close>, and what was written is what the entered
  block owed and the unread input held, with some bytes left out.
\<close>

lemma exec_result:
  "\<exists>s' e. exec s (c, (rd, un), out) = Some (s', EOF, (rd @ un, []), out @ e) \<and>
     subseq e (pend s c @ un)"
proof (induction s "(c, (rd, un), out)" arbitrary: c rd un out rule: exec_induct)
  case (step s)
  show ?case
  proof (cases "step s (c, (rd, un), out)")
    case (Exit x')
    from step_Exit [OF Exit] exec_Exit [OF Exit] show ?thesis
      by (cases s) auto
  next
    case (Goto s' x')
    obtain c' rd' un' out' where x': "x' = (c', (rd', un'), out')"
      by (metis prod.exhaust)
    note g = Goto [unfolded x']
    from step.hyps [OF g] obtain s'' e where
      e: "exec s' (c', (rd', un'), out') = Some (s'', EOF, (rd' @ un', []), out' @ e)"
        "subseq e (pend s' c' @ un')"
      by blast
    from step_Goto [OF g] obtain d where
      d: "rd' @ un' = rd @ un" "out' = out @ d"
         "\<And>e. subseq e (pend s' c' @ un') \<Longrightarrow> subseq (d @ e) (pend s c @ un)"
      by blast
    have "exec s (c, (rd, un), out) = Some (s'', EOF, (rd @ un, []), out @ (d @ e))"
      using exec_Goto [OF g] e(1) d(1,2) by simp
    with d(3) [OF e(2)] show ?thesis
      by blast
  qed
qed

subsection \<open>Text without slashes and quotes\<close>

lemma exec_code_plain:
  "CHR ''/'' \<notin> set s \<Longrightarrow> dquote \<notin> set s \<Longrightarrow> squote \<notin> set s \<Longrightarrow>
   exec code (c, (rd, s), out) = Some (code, EOF, (rd @ s, []), out @ s)"
proof (induction s arbitrary: c rd out)
  case Nil
  show ?case
    by (simp add: exec.simps)
next
  case (Cons x s)
  have "exec code (c, (rd, x # s), out) = exec code_char (cint x, (rd @ [x], s), out)"
    using Cons.prems by (subst exec.simps) auto
  also have "\<dots> = exec code (cint x, (rd @ [x], s), out @ [x])"
    using Cons.prems by (subst exec.simps) auto
  also have "\<dots> = Some (code, EOF, ((rd @ [x]) @ s, []), (out @ [x]) @ s)"
    using Cons.prems by (intro Cons.IH) auto
  finally show ?case
    by simp
qed

subsection \<open>One more slash at the end of the input\<close>

lemma exec_code_slash_eof:
  "exec code (c, (rd, ''/''), out) = Some (slash, EOF, (rd @ ''/'', []), out)"
  by (simp add: exec.simps Let_def)

lemma exec_append_slash:
  "exec s (c, (rd, un), out) = Some (code, c1, i1, o1) \<Longrightarrow>
   exec s (c, (rd, un @ ''/''), out) = Some (slash, EOF, (rd @ un @ ''/'', []), o1)"
proof (induction s "(c, (rd, un), out)" arbitrary: c rd un out rule: exec_induct)
  case (step s)
  show ?case
  proof (cases "step s (c, (rd, un), out)")
    case (Exit x')
    from step_Exit [OF Exit] exec_Exit [OF Exit] step.prems
    have "s = code" "un = []" "o1 = out"
      by auto
    then show ?thesis
      by (simp only: exec_code_slash_eof append_Nil)
  next
    case (Goto s' x')
    obtain c' rd' un' out' where x': "x' = (c', (rd', un'), out')"
      by (metis prod.exhaust)
    note g = Goto [unfolded x']
    have "exec s' (c', (rd', un'), out') = Some (code, c1, i1, o1)"
      using exec_Goto [OF g] step.prems by simp
    from step.hyps [OF g this]
    have "exec s' (c', (rd', un' @ ''/''), out') =
          Some (slash, EOF, (rd' @ un' @ ''/'', []), o1)" .
    moreover have "rd' @ un' = rd @ un"
      using step_Goto [OF g] by simp
    then have "rd' @ un' @ ''/'' = rd @ un @ ''/''"
      by (metis append_assoc)
    ultimately show ?thesis
      using exec_Goto [OF step_append [OF g, of "''/''"]] by simp
  qed
qed

subsection \<open>Literals without a backslash\<close>

text \<open>A literal body that holds no backslash is copied up to and with its closing quote,
  and the machine is back in \<^verbatim>\<open>code\<close>.\<close>

lemma exec_string_plain:
  "bslash \<notin> set b \<Longrightarrow> dquote \<notin> set b \<Longrightarrow>
   exec string (c, (rd, b @ dquote # un), out) =
     exec code (cint dquote, (rd @ b @ [dquote], un), out @ b @ [dquote])"
proof (induction b arbitrary: c rd out)
  case Nil
  show ?case
    by (subst exec.simps) simp
next
  case (Cons x b)
  have "exec string (c, (rd, (x # b) @ dquote # un), out) =
        exec string (cint x, (rd @ [x], b @ dquote # un), out @ [x])"
    using Cons.prems by (subst exec.simps) auto
  also have "\<dots> = exec code (cint dquote, ((rd @ [x]) @ b @ [dquote], un), (out @ [x]) @ b @ [dquote])"
    using Cons.prems by (intro Cons.IH) auto
  finally show ?case
    by simp
qed

lemma exec_literal_plain:
  "bslash \<notin> set b \<Longrightarrow> squote \<notin> set b \<Longrightarrow>
   exec literal (c, (rd, b @ squote # un), out) =
     exec code (cint squote, (rd @ b @ [squote], un), out @ b @ [squote])"
proof (induction b arbitrary: c rd out)
  case Nil
  show ?case
    by (subst exec.simps) simp
next
  case (Cons x b)
  have "exec literal (c, (rd, (x # b) @ squote # un), out) =
        exec literal (cint x, (rd @ [x], b @ squote # un), out @ [x])"
    using Cons.prems by (subst exec.simps) auto
  also have "\<dots> = exec code (cint squote, ((rd @ [x]) @ b @ [squote], un), (out @ [x]) @ b @ [squote])"
    using Cons.prems by (intro Cons.IH) auto
  finally show ?case
    by simp
qed

subsection \<open>The log of a run and what the run writes\<close>






section \<open>The claims\<close>

subsection \<open>C1: where an escape returns to\<close>

text \<open>
  C1 says that \<^verbatim>\<open>escaped\<close>, entered from a literal, goes back after one more byte to the
  literal state it came from: \<^verbatim>\<open>string\<close> for a string literal, \<^verbatim>\<open>literal\<close> for a
  character literal. The block decides with \<^verbatim>\<open>quote == '"'\<close>, but \<^verbatim>\<open>quote\<close> was copied
  from \<^verbatim>\<open>c\<close>, which holds the backslash that led here, so the test never succeeds:
  an escape read in \<^verbatim>\<open>string\<close> resumes in \<^verbatim>\<open>literal\<close>, for every following byte.
  On the nine bytes \<^verbatim>\<open>"\n"/*c*/\<close> (a string literal holding the escape backslash-n,
  then a block comment) the machine is therefore still in \<^verbatim>\<open>literal\<close> at the end of the input and
  has copied the comment.
\<close>

theorem escape_in_string_resumes_in_literal:
  "exec string (c, (rd, bslash # x # un), out) =
     exec literal (cint x, (rd @ [bslash, x], un), out @ [bslash, x])
   \<and> exec START (c0, ([], [dquote, bslash, CHR ''n'', dquote] @ ''/*c*/''), []) =
       Some (literal, EOF,
             ([dquote, bslash, CHR ''n'', dquote] @ ''/*c*/'', []),
             [dquote, bslash, CHR ''n'', dquote] @ ''/*c*/'')"
proof
  have "exec string (c, (rd, bslash # x # un), out) =
        exec escaped (cint bslash, (rd @ [bslash], x # un), out)"
    by (subst exec.simps) simp
  also have "\<dots> = exec literal (cint x, (rd @ [bslash, x], un), out @ [bslash, x])"
    by (subst exec.simps) simp
  finally show "exec string (c, (rd, bslash # x # un), out) =
     exec literal (cint x, (rd @ [bslash, x], un), out @ [bslash, x])" .
next
  show "exec START (c0, ([], [dquote, bslash, CHR ''n'', dquote] @ ''/*c*/''), []) =
       Some (literal, EOF,
             ([dquote, bslash, CHR ''n'', dquote] @ ''/*c*/'', []),
             [dquote, bslash, CHR ''n'', dquote] @ ''/*c*/'')"
    by (simp add: exec.simps Let_def)
qed

subsection \<open>C2: the newline that ends a line comment\<close>

text \<open>
  C2 says that \<^verbatim>\<open>line_comment\<close> writes the newline that ends the comment, so that
  \<^verbatim>\<open>a//comment\<close>, newline, \<^verbatim>\<open>b\<close> becomes \<^verbatim>\<open>a\<close>, newline, \<^verbatim>\<open>b\<close>. The block writes
  nothing at all: on a newline it jumps to \<^verbatim>\<open>code\<close>, which reads the next byte. The
  output for that input is not the claimed one.
\<close>

theorem line_comment_newline_counterexample:
  "uncomment 0 ''a//comment\<newline>b'' \<noteq> Some ''a\<newline>b''"
  by (simp add: uncomment_def exec.simps Let_def)

text \<open>
  C2 as amended: in \<^verbatim>\<open>line_comment\<close>, on a newline the machine writes nothing and goes
  to \<^verbatim>\<open>code\<close> with the output unchanged, so the newline that ends a line comment is
  dropped with the comment; \<^verbatim>\<open>a//comment\<close>, newline, \<^verbatim>\<open>b\<close> becomes \<^verbatim>\<open>ab\<close>.
\<close>

theorem line_comment_newline_dropped:
  "exec line_comment (c, (rd, newline # un), out) =
     exec code (cint newline, (rd @ [newline], un), out)
   \<and> uncomment c0 ''a//comment\<newline>b'' = Some ''ab''"
proof
  show "exec line_comment (c, (rd, newline # un), out) =
     exec code (cint newline, (rd @ [newline], un), out)"
    by (subst exec.simps) simp
next
  show "uncomment c0 ''a//comment\<newline>b'' = Some ''ab''"
    by (simp add: uncomment_def exec.simps Let_def)
qed

subsection \<open>C3: an escaped double quote in a string literal\<close>

text \<open>
  C3 says that for the 16 bytes \<^verbatim>\<open>x = "a\"b"; // c\<close> the output is the first 12 of
  them: the escaped quote does not end the string, the next plain quote does, and the
  line comment goes. In the code the escaped quote indeed does not end the string, but
  after the escape the machine is in \<^verbatim>\<open>literal\<close> (see C1), where the closing
  double quote is one more byte of a character literal; the machine never returns to
  \<^verbatim>\<open>code\<close>, and all 16 bytes are copied, the comment with them.
\<close>

theorem escaped_quote_example_keeps_comment:
  "uncomment c0 (''x = '' @ [dquote, CHR ''a'', bslash, dquote, CHR ''b'', dquote] @ ''; // c'') =
     Some (''x = '' @ [dquote, CHR ''a'', bslash, dquote, CHR ''b'', dquote] @ ''; // c'')
   \<and> uncomment c0 (''x = '' @ [dquote, CHR ''a'', bslash, dquote, CHR ''b'', dquote] @ ''; // c'') \<noteq>
     Some (''x = '' @ [dquote, CHR ''a'', bslash, dquote, CHR ''b'', dquote] @ ''; '')"
  by (simp add: uncomment_def exec.simps Let_def)

subsection \<open>C4: every run ends\<close>

text \<open>
  C4: \<^verbatim>\<open>uncomment\<close> returns on every finite input. A block whose \<^verbatim>\<open>fgetc\<close> meets the
  end of the input leaves the machine at once, with the output as it stands (the block
  \<^verbatim>\<open>escaped\<close> has by then written the backslash it was entered with); from any state
  at the end of the input the run ends and keeps what was written before. There is no
  other outcome than the written output. On \<^verbatim>\<open>code /* unterminated\<close> the output is
  \<^verbatim>\<open>code\<close> and the space after it.
\<close>

theorem uncomment_terminates:
  "(\<exists>res. uncomment c0 inp = Some res)
   \<and> (\<exists>s' e. exec s (c, (rd, []), out) = Some (s', EOF, (rd, []), out @ e))
   \<and> exec code (c, (rd, []), out) = Some (code, EOF, (rd, []), out)
   \<and> exec slash (c, (rd, []), out) = Some (slash, EOF, (rd, []), out)
   \<and> exec string (c, (rd, []), out) = Some (string, EOF, (rd, []), out)
   \<and> exec literal (c, (rd, []), out) = Some (literal, EOF, (rd, []), out)
   \<and> exec escaped (c, (rd, []), out) = Some (escaped, EOF, (rd, []), out @ [char_of c])
   \<and> exec line_comment (c, (rd, []), out) = Some (line_comment, EOF, (rd, []), out)
   \<and> exec block_comment (c, (rd, []), out) = Some (block_comment, EOF, (rd, []), out)
   \<and> exec star (c, (rd, []), out) = Some (star, EOF, (rd, []), out)
   \<and> uncomment c0 ''code /* unterminated'' = Some ''code ''"
proof -
  from exec_result [of START c0 "[]" inp "[]"]
  have run: "\<exists>res. uncomment c0 inp = Some res"
    by (auto simp: uncomment_def)
  from exec_result [of s c rd "[]" out]
  have eof: "\<exists>s' e. exec s (c, (rd, []), out) = Some (s', EOF, (rd, []), out @ e)"
    by auto
  have ex: "uncomment c0 ''code /* unterminated'' = Some ''code ''"
    by (simp add: uncomment_def exec.simps Let_def)
  show ?thesis
    by (intro conjI run eof ex) (simp_all add: exec.simps fputc_def)
qed

subsection \<open>C5: a slash that opens no comment\<close>

text \<open>
  C5: in \<^verbatim>\<open>slash\<close>, on a byte that is neither \<^verbatim>\<open>/\<close> nor \<^verbatim>\<open>*\<close>, the machine writes
  the slash it held back and then treats the byte as \<^verbatim>\<open>code\<close> treats it: the byte is
  written, and the next state is \<^verbatim>\<open>string\<close> after a double quote, \<^verbatim>\<open>literal\<close> after
  a single quote and \<^verbatim>\<open>code\<close> otherwise. \<^verbatim>\<open>a/b\<close> is copied unchanged.
\<close>

theorem slash_false_alarm:
  assumes "x \<noteq> CHR ''/''" and "x \<noteq> CHR ''*''"
  shows "exec slash (c, (rd, x # un), out) =
           exec (if x = dquote then string else if x = squote then literal else code)
             (cint x, (rd @ [x], un), out @ ''/'' @ [x])
         \<and> exec code (c, (rd, x # un), out) =
           exec (if x = dquote then string else if x = squote then literal else code)
             (cint x, (rd @ [x], un), out @ [x])
         \<and> uncomment c0 ''a/b'' = Some ''a/b''"
proof -
  have disp: "exec code_char (cint x, i, w) =
      exec (if x = dquote then string else if x = squote then literal else code)
        (cint x, i, w @ [x])" for i w
    by (subst exec.simps) simp
  have "exec slash (c, (rd, x # un), out) = exec code_char (cint x, (rd @ [x], un), out @ ''/'')"
    using assms by (subst exec.simps) simp
  moreover
  have "exec code (c, (rd, x # un), out) = exec code_char (cint x, (rd @ [x], un), out)"
    using assms by (subst exec.simps) simp
  moreover
  have "uncomment c0 ''a/b'' = Some ''a/b''"
    by (simp add: uncomment_def exec.simps Let_def)
  ultimately show ?thesis
    by (simp add: disp)
qed

theorem slash_false_alarm_witness:
  "CHR ''b'' \<noteq> CHR ''/'' \<and> CHR ''b'' \<noteq> CHR ''*''
   \<and> exec slash (0, (''a/'', ''b''), ''a'') = Some (code, EOF, (''a/b'', []), ''a/b'')
   \<and> exec slash (0, (''a/'', [dquote]), ''a'') =
       Some (string, EOF, (''a/'' @ [dquote], []), ''a/'' @ [dquote])"
  using slash_false_alarm [of "CHR ''b''" 0 "''a/''" "[]" "''a''" 0]
    slash_false_alarm [of dquote 0 "''a/''" "[]" "''a''" 0]
  by (simp add: exec.simps Let_def)

subsection \<open>C6: text without slashes and quotes\<close>

text \<open>
  C6: an input with no \<^verbatim>\<open>/\<close>, no double quote and no single quote is copied
  unchanged.
\<close>

theorem uncomment_plain_identity:
  assumes "CHR ''/'' \<notin> set s" and "dquote \<notin> set s" and "squote \<notin> set s"
  shows "uncomment c0 s = Some s"
  using assms by (simp add: uncomment_def exec_START exec_code_plain)

theorem uncomment_plain_identity_witness:
  "CHR ''/'' \<notin> set ''int x = 1;\<newline>'' \<and> dquote \<notin> set ''int x = 1;\<newline>''
   \<and> squote \<notin> set ''int x = 1;\<newline>''
   \<and> uncomment 0 ''int x = 1;\<newline>'' = Some ''int x = 1;\<newline>''"
  using uncomment_plain_identity [of "''int x = 1;\<newline>''" 0] by simp

subsection \<open>C7: the contents of literals\<close>

text \<open>
  C7 says that the contents of string and character literals, comment markers
  included, reach the output unchanged, and that \<^verbatim>\<open>s = "/* not a comment */";\<close> is
  copied as it is. The example holds, and so does the statement for every literal
  without a backslash (\<open>exec_string_plain\<close>, \<open>exec_literal_plain\<close>). In general
  it does not: after an escape inside a string literal the machine is in \<^verbatim>\<open>literal\<close>
  (see C1), a single quote further on in the same string takes it to \<^verbatim>\<open>code\<close>, and
  a comment marker after that, still inside the string, is removed. The string literal
  \<^verbatim>\<open>"\n'/*x*/"\<close> comes out as \<^verbatim>\<open>"\n'"\<close>.
\<close>

theorem string_literal_contents_removed:
  "uncomment c0 ([dquote, bslash, CHR ''n'', squote] @ ''/*x*/'' @ [dquote]) =
     Some [dquote, bslash, CHR ''n'', squote, dquote]
   \<and> uncomment c0 (''s = '' @ [dquote] @ ''/* not a comment */'' @ [dquote] @ '';'') =
     Some (''s = '' @ [dquote] @ ''/* not a comment */'' @ [dquote] @ '';'')"
  by (simp add: uncomment_def exec.simps Let_def)

subsection \<open>C8: a slash at the very end\<close>

text \<open>
  C8: when \<^verbatim>\<open>slash\<close> meets the end of the input, the machine leaves without writing
  the \<^verbatim>\<open>/\<close> it held back. So whenever the run over \<open>s\<close> meets the end of the input in
  \<^verbatim>\<open>code\<close>, the run over \<open>s\<close> followed by one more \<^verbatim>\<open>/\<close> ends in \<^verbatim>\<open>slash\<close> and
  writes what the run over \<open>s\<close> wrote: the last \<^verbatim>\<open>/\<close> is not in the output.
\<close>

theorem trailing_slash_discarded:
  assumes "exec START (c0, ([], s), []) = Some (code, c1, i1, o1)"
  shows "exec slash (c, (rd, []), out) = Some (slash, EOF, (rd, []), out)
         \<and> exec START (c0, ([], s @ ''/''), []) = Some (slash, EOF, (s @ ''/'', []), o1)
         \<and> uncomment c0 (s @ ''/'') = Some o1
         \<and> uncomment c0 s = Some o1"
proof -
  have "exec slash (c, (rd, []), out) = Some (slash, EOF, (rd, []), out)"
    by (simp add: exec.simps)
  moreover from exec_append_slash [OF assms]
  have "exec START (c0, ([], s @ ''/''), []) = Some (slash, EOF, (s @ ''/'', []), o1)"
    by simp
  ultimately show ?thesis
    using assms by (simp add: uncomment_def)
qed

theorem trailing_slash_discarded_witness:
  "exec START (0, ([], ''a = b''), []) = Some (code, EOF, (''a = b'', []), ''a = b'')
   \<and> uncomment 0 ''a = b/'' = Some ''a = b''"
proof -
  have h: "exec START (0, ([], ''a = b''), []) = Some (code, EOF, (''a = b'', []), ''a = b'')"
    by (simp add: exec.simps Let_def)
  show ?thesis
    using h trailing_slash_discarded [OF h] by simp
qed

subsection \<open>C9: every byte is read once\<close>



subsection \<open>C10: an escape in a character literal\<close>

text \<open>
  C10: on a backslash in \<^verbatim>\<open>literal\<close> the machine writes the backslash, writes the
  next byte whatever it is, and is in \<^verbatim>\<open>literal\<close> again. An escaped single quote
  does not end the character literal: in \<^verbatim>\<open>'\''/*x*/\<close> the literal ends at the fourth
  byte, and the comment after it is removed.
\<close>

theorem escape_in_char_literal:
  "exec literal (c, (rd, bslash # x # un), out) =
     exec literal (cint x, (rd @ [bslash, x], un), out @ [bslash, x])
   \<and> uncomment c0 ([squote, bslash, squote, squote] @ ''/*x*/'') =
       Some [squote, bslash, squote, squote]"
proof
  have "exec literal (c, (rd, bslash # x # un), out) =
        exec escaped (cint bslash, (rd @ [bslash], x # un), out)"
    by (subst exec.simps) simp
  also have "\<dots> = exec literal (cint x, (rd @ [bslash, x], un), out @ [bslash, x])"
    by (subst exec.simps) simp
  finally show "exec literal (c, (rd, bslash # x # un), out) =
     exec literal (cint x, (rd @ [bslash, x], un), out @ [bslash, x])" .
next
  show "uncomment c0 ([squote, bslash, squote, squote] @ ''/*x*/'') =
       Some [squote, bslash, squote, squote]"
    by (simp add: uncomment_def exec.simps Let_def)
qed

end
